theory Spec2Isabelle
  imports Main "HOL-Library.Sublist" "HOL-Library.Multiset"
begin

section \<open>Python values shared by the services\<close>

text \<open>
  An exception is a Python \<open>Exception\<close> instance: its class name and the text that
  \<open>str(e)\<close> yields. Every \<open>except Exception\<close> of the source catches all of them.
\<close>

datatype exn = Exn (exn_class: string) (exn_msg: string)

text \<open>A name in single quotes, as Python's error messages print it.\<close>

definition quoted :: "string \<Rightarrow> string" where
  "quoted s = [CHR 0x27] @ s @ [CHR 0x27]"

text \<open>\<open>sub in text\<close> on Python strings.\<close>

fun py_in :: "string \<Rightarrow> string \<Rightarrow> bool" where
  "py_in sub [] = (sub = [])"
| "py_in sub (c # cs) = (prefix sub (c # cs) \<or> py_in sub cs)"

text \<open>
  \<open>str.lower()\<close> on the ASCII letters; every other character is left as it is.
\<close>

definition lower_char :: "char \<Rightarrow> char" where
  "lower_char c =
     (let n = (of_char c :: nat) in if 65 \<le> n \<and> n \<le> 90 then char_of (n + 32) else c)"

definition lower :: "string \<Rightarrow> string" where
  "lower s = map lower_char s"

text \<open>
  \<open>text.count(sub)\<close>: the number of non-overlapping occurrences, scanning from the
  left; the empty string occurs \<open>len(text) + 1\<close> times.
\<close>

fun count_from :: "string \<Rightarrow> string \<Rightarrow> nat" where
  "count_from sub [] = 0"
| "count_from sub (c # cs) =
     (if prefix sub (c # cs) then Suc (count_from sub (drop (length sub - 1) cs))
      else count_from sub cs)"

definition py_count :: "string \<Rightarrow> string \<Rightarrow> nat" where
  "py_count text sub = (if sub = [] then length text + 1 else count_from sub text)"

text \<open>\<open>xs[:n]\<close>: a negative bound counts from the end of the list.\<close>

definition py_take :: "int \<Rightarrow> 'a list \<Rightarrow> 'a list" where
  "py_take n xs = (if 0 \<le> n then take (nat n) xs else take (length xs - nat (- n)) xs)"

section \<open>Paper records\<close>

text \<open>
  A paper is a Python dict. The fields the pipeline reads (\<open>title\<close>, \<open>abstract\<close>,
  \<open>source\<close>, \<open>pdfContentUrl\<close>, \<open>pdfContent\<close>) hold text or \<open>None\<close>. The dicts are
  mutated in place and passed around by reference, so a list of papers is a list of
  references into a store of dicts.
\<close>

datatype val = VNone | VStr string

type_synonym paper = "string \<rightharpoonup> val"

type_synonym ref = nat

type_synonym store = "ref \<Rightarrow> paper"

text \<open>\<open>p.get(key) or ""\<close>\<close>

definition get_or_empty :: "paper \<Rightarrow> string \<Rightarrow> string" where
  "get_or_empty p key = (case p key of Some (VStr s) \<Rightarrow> s | _ \<Rightarrow> [])"

section \<open>Ranking: search\_orchestrator.py, \_rank\_papers\<close>

text \<open>The inner function \<open>score\<close>, with the lower-cased query terms.\<close>

definition score_text :: "paper \<Rightarrow> string" where
  "score_text p = lower (get_or_empty p ''title'' @ '' '' @ get_or_empty p ''abstract'')"

definition score :: "string list \<Rightarrow> paper \<Rightarrow> nat" where
  "score terms p = sum_list (map (\<lambda>term. py_count (score_text p) term) terms)"

text \<open>
  \<open>sorted(xs, key=key, reverse=True)\<close>, as CPython computes it: the list is reversed,
  sorted by a stable ascending sort, and reversed again.
\<close>

definition sorted_reverse :: "('a \<Rightarrow> nat) \<Rightarrow> 'a list \<Rightarrow> 'a list" where
  "sorted_reverse key xs = rev (sort_key key (rev xs))"

definition rank_papers :: "store \<Rightarrow> ref list \<Rightarrow> string list \<Rightarrow> ref list" where
  "rank_papers h papers query_terms =
     (if papers = [] then papers
      else (let terms = map lower query_terms
            in sorted_reverse (\<lambda>p. score terms (h p)) papers))"

text \<open>
  The score as the specification words it: the occurrences of each lower-cased term in
  the lower-cased concatenation of title and abstract.
\<close>

definition spec_score :: "string list \<Rightarrow> paper \<Rightarrow> nat" where
  "spec_score query_terms p =
     sum_list (map (\<lambda>term. py_count (lower (get_or_empty p ''title'' @ get_or_empty p ''abstract''))
                               (lower term)) query_terms)"

text \<open>Two papers: the title and abstract of the first read \<open>network\<close> only when joined.\<close>

definition example_store :: store where
  "example_store =
     (\<lambda>r. Map.empty)
       (0 := [''title'' \<mapsto> VStr ''Net'', ''abstract'' \<mapsto> VStr ''work''],
        1 := [''title'' \<mapsto> VStr ''X'', ''abstract'' \<mapsto> VStr ''network''])"

section \<open>Provider dispatch: search\_orchestrator.py\<close>

text \<open>The fields of \<open>SearchConfig\<close> (config.py) that the orchestrator reads.\<close>

record SearchConfig =
  papers_per_source :: int
  max_search_rounds :: int
  max_rate_limit_retries :: int
  rate_limit_backoff_seconds :: int

text \<open>
  What one awaited \<open>asyncio.wait_for(client.search_papers(...), timeout=...)\<close> does: the
  client returns its papers (\<open>None\<close> counting as no papers), the call ends in
  \<open>asyncio.TimeoutError\<close>, or it raises another exception.
\<close>

datatype outcome = Returned "ref list" | TimedOut | Raised exn

text \<open>
  A provider client: the outcome of its call, given the number of the fan-out the call
  belongs to, the query and the attempt (counted from 0). The registry \<open>api_clients\<close>
  maps source names to clients; \<open>build_filters\<close> may raise.
\<close>

type_synonym client = "nat \<Rightarrow> string \<Rightarrow> nat \<Rightarrow> outcome"

record providers =
  api_clients :: "string \<rightharpoonup> client"
  build_filters :: "string \<Rightarrow> string \<Rightarrow> string \<Rightarrow> exn option"

text \<open>What a dispatch does that can be observed: the API calls and the back-off sleeps.\<close>

datatype call_event = ApiCall nat | Sleep int

text \<open>\<open>"rate limit" in error_str or "429" in error_str\<close>, with \<open>error_str = str(e).lower()\<close>.\<close>

definition is_rate_limit :: "exn \<Rightarrow> bool" where
  "is_rate_limit e =
     (let error_str = lower (exn_msg e)
      in py_in ''rate limit'' error_str \<or> py_in ''429'' error_str)"

text \<open>
  The retry loop of \<open>_safe_source_search\<close> over the attempts that are left. It ends by
  \<open>break\<close> with the papers, by \<open>return []\<close>, by re-raising the exception, or by running
  out of attempts with \<open>papers\<close> still \<open>None\<close>.
\<close>

datatype loop_exit = Break "ref list" | ReturnEmpty | Reraise exn | Exhausted

fun retry_loop ::
  "SearchConfig \<Rightarrow> (nat \<Rightarrow> outcome) \<Rightarrow> nat list \<Rightarrow> call_event list \<times> loop_exit" where
  "retry_loop cfg call [] = ([], Exhausted)"
| "retry_loop cfg call (attempt # rest) =
     (case call attempt of
        Returned papers \<Rightarrow> ([ApiCall attempt], Break papers)
      | TimedOut \<Rightarrow> ([ApiCall attempt], ReturnEmpty)
      | Raised e \<Rightarrow>
          if is_rate_limit e then
            if int attempt < max_rate_limit_retries cfg then
              (case retry_loop cfg call rest of
                 (evs, r) \<Rightarrow> (ApiCall attempt # Sleep (rate_limit_backoff_seconds cfg) # evs, r))
            else ([ApiCall attempt], ReturnEmpty)
          else ([ApiCall attempt], Reraise e))"

text \<open>\<open>range(self.config.max_rate_limit_retries + 1)\<close>\<close>

definition attempts :: "SearchConfig \<Rightarrow> nat list" where
  "attempts cfg = [0 ..< nat (max_rate_limit_retries cfg + 1)]"

text \<open>
  The body of the outer \<open>try\<close> of \<open>_safe_source_search\<close>: it returns a list or raises.
\<close>

definition safe_source_search_try ::
  "SearchConfig \<Rightarrow> providers \<Rightarrow> nat \<Rightarrow> string \<Rightarrow> string \<Rightarrow> string
     \<Rightarrow> call_event list \<times> (exn + ref list)" where
  "safe_source_search_try cfg pv tick source_name query domain =
     (case api_clients pv source_name of
        None \<Rightarrow> ([], Inr [])
      | Some client \<Rightarrow>
          (case build_filters pv source_name domain query of
             Some e \<Rightarrow> ([], Inl e)
           | None \<Rightarrow>
               (case retry_loop cfg (client tick query) (attempts cfg) of
                  (evs, Break papers) \<Rightarrow> (evs, Inr papers)
                | (evs, ReturnEmpty) \<Rightarrow> (evs, Inr [])
                | (evs, Reraise e) \<Rightarrow> (evs, Inl e)
                | (evs, Exhausted) \<Rightarrow> (evs, Inr []))))"

text \<open>\<open>_safe_source_search\<close>: the outer \<open>except Exception\<close> returns the empty list.\<close>

definition safe_source_search ::
  "SearchConfig \<Rightarrow> providers \<Rightarrow> nat \<Rightarrow> string \<Rightarrow> string \<Rightarrow> string
     \<Rightarrow> call_event list \<times> (exn + ref list)" where
  "safe_source_search cfg pv tick source_name query domain =
     (case safe_source_search_try cfg pv tick source_name query domain of
        (evs, Inr papers) \<Rightarrow> (evs, Inr papers)
      | (evs, Inl e) \<Rightarrow> (evs, Inr []))"

text \<open>\<open>for paper in result: paper["source"] = source_name\<close>\<close>

definition tag_source :: "string \<Rightarrow> ref list \<Rightarrow> store \<Rightarrow> store" where
  "tag_source source_name result h =
     fold (\<lambda>paper h. h(paper := (h paper)(''source'' \<mapsto> VStr source_name))) result h"

text \<open>
  The loop of \<open>_search_all_sources\<close> over the gathered results, one per active source
  and in that order. \<open>asyncio.gather(..., return_exceptions=True)\<close> hands over an
  exception as a result; such a result is skipped.
\<close>

fun combine_results :: "(string \<times> (exn + ref list)) list \<Rightarrow> store \<Rightarrow> ref list \<times> store" where
  "combine_results [] h = ([], h)"
| "combine_results ((source_name, result) # rest) h =
     (case result of
        Inl e \<Rightarrow> combine_results rest h
      | Inr papers \<Rightarrow>
          if papers \<noteq> [] then
            (case combine_results rest (tag_source source_name papers h) of
               (all_papers, h') \<Rightarrow> (papers @ all_papers, h'))
          else combine_results rest h)"

definition search_all_sources ::
  "SearchConfig \<Rightarrow> providers \<Rightarrow> string list \<Rightarrow> nat \<Rightarrow> string \<Rightarrow> string \<Rightarrow> store
     \<Rightarrow> ref list \<times> store" where
  "search_all_sources cfg pv active_sources tick query domain h =
     (let results = map (\<lambda>source_name.
                      (source_name, snd (safe_source_search cfg pv tick source_name query domain)))
                    active_sources
      in combine_results results h)"

text \<open>The call of this attempt ends in an exception that is read as a rate-limit signal.\<close>

definition rate_limited :: "(nat \<Rightarrow> outcome) \<Rightarrow> nat \<Rightarrow> bool" where
  "rate_limited call k = (case call k of Raised e \<Rightarrow> is_rate_limit e | _ \<Rightarrow> False)"

text \<open>
  A registry of three providers for the examples: \<open>arXiv\<close> always answers with a
  rate-limit error, \<open>PubMed\<close> returns the papers 0 and 1, \<open>CORE\<close> is rate limited
  once and then fails with a connection error.
\<close>

definition example_config :: SearchConfig where
  "example_config =
     \<lparr>papers_per_source = 2, max_search_rounds = 1, max_rate_limit_retries = 1,
      rate_limit_backoff_seconds = 2\<rparr>"

definition example_providers :: providers where
  "example_providers =
     \<lparr>api_clients =
        [''arXiv'' \<mapsto> (\<lambda>tick query attempt. Raised (Exn ''HTTPError'' ''429 Too Many Requests'')),
         ''PubMed'' \<mapsto> (\<lambda>tick query attempt. Returned [0, 1]),
         ''CORE'' \<mapsto> (\<lambda>tick query attempt.
            if attempt = 0 then Raised (Exn ''HTTPError'' ''Rate limit exceeded'')
            else Raised (Exn ''ConnectionError'' ''connection reset by peer''))],
      build_filters = (\<lambda>source_name domain query. None)\<rparr>"

section \<open>Content acquisition: pdf\_processor.py\<close>

text \<open>
  What the awaited collaborator calls of one \<open>process_paper_pdf\<close> task yield, each a
  value or an exception: \<open>b2_service.get_pdf_url\<close>, \<open>pdf_collector.collect_pdf\<close> and
  \<open>b2_service.upload_pdf\<close>. The tasks of a run are numbered by the position of their
  paper in the input list, and the collaborators may answer every task differently.
\<close>

record pdf_io =
  get_pdf_url :: "exn + string option"
  collect_pdf :: "exn + string option"
  upload_pdf :: "exn + string option"

text \<open>Python truthiness of an optional text (\<open>if existing_url:\<close>).\<close>

fun present :: "string option \<Rightarrow> bool" where
  "present None = False"
| "present (Some s) = (s \<noteq> [])"

text \<open>
  The log lines of \<open>process_paper_pdf\<close> format \<open>paper.get('title', 'Unknown')[:50]\<close>,
  which raises a \<open>TypeError\<close> when the title is \<open>None\<close>.
\<close>

definition title_for_log :: "paper \<Rightarrow> exn + string" where
  "title_for_log p =
     (case p ''title'' of
        None \<Rightarrow> Inr (take 50 ''Unknown'')
      | Some (VStr s) \<Rightarrow> Inr (take 50 s)
      | Some VNone \<Rightarrow>
          Inl (Exn ''TypeError'' (quoted ''NoneType'' @ '' object is not subscriptable'')))"

text \<open>\<open>paper["pdfContentUrl"] = url; paper.pop("pdfContent", None)\<close>\<close>

definition attach :: "string \<Rightarrow> ref \<Rightarrow> store \<Rightarrow> store" where
  "attach url paper h =
     h(paper := ((h paper)(''pdfContentUrl'' \<mapsto> VStr url))(''pdfContent'' := None))"

text \<open>
  The body of the \<open>try\<close> in \<open>process_paper_pdf\<close>. It raises, or it returns the paper
  (\<open>Some\<close>) or \<open>None\<close> together with the store; the store changes only on the two
  paths that return the paper.
\<close>

definition process_paper_pdf_try :: "pdf_io \<Rightarrow> ref \<Rightarrow> store \<Rightarrow> exn + (ref option \<times> store)" where
  "process_paper_pdf_try io paper h =
     (case get_pdf_url io of
        Inl e \<Rightarrow> Inl e
      | Inr existing_url \<Rightarrow>
          if present existing_url then
            (case title_for_log (h paper) of
               Inl e \<Rightarrow> Inl e
             | Inr _ \<Rightarrow> Inr (Some paper, attach (the existing_url) paper h))
          else
            (case title_for_log (h paper) of
               Inl e \<Rightarrow> Inl e
             | Inr _ \<Rightarrow>
                 (case collect_pdf io of
                    Inl e \<Rightarrow> Inl e
                  | Inr pdf_content \<Rightarrow>
                      if \<not> present pdf_content then
                        (case title_for_log (h paper) of
                           Inl e \<Rightarrow> Inl e
                         | Inr _ \<Rightarrow> Inr (None, h))
                      else
                        (case title_for_log (h paper) of
                           Inl e \<Rightarrow> Inl e
                         | Inr _ \<Rightarrow>
                             (case upload_pdf io of
                                Inl e \<Rightarrow> Inl e
                              | Inr b2_url \<Rightarrow>
                                  if present b2_url then
                                    (case title_for_log (h paper) of
                                       Inl e \<Rightarrow> Inl e
                                     | Inr _ \<Rightarrow> Inr (Some paper, attach (the b2_url) paper h))
                                  else
                                    (case title_for_log (h paper) of
                                       Inl e \<Rightarrow> Inl e
                                     | Inr _ \<Rightarrow> Inr (None, h)))))))"

text \<open>
  \<open>process_paper_pdf\<close>: the \<open>except Exception\<close> logs with the title as well, so it
  returns \<open>None\<close> unless that log line raises in its turn.
\<close>

definition process_paper_pdf :: "pdf_io \<Rightarrow> ref \<Rightarrow> store \<Rightarrow> (exn + ref option) \<times> store" where
  "process_paper_pdf io paper h =
     (case process_paper_pdf_try io paper h of
        Inr (result, h') \<Rightarrow> (Inr result, h')
      | Inl e \<Rightarrow>
          (case title_for_log (h paper) of
             Inl e' \<Rightarrow> (Inl e', h)
           | Inr _ \<Rightarrow> (Inr None, h)))"

text \<open>
  \<open>asyncio.gather(*tasks, return_exceptions=True)\<close> over one batch whose first paper
  has position \<open>k\<close>: one result per paper, in the order of the batch. A task writes only
  to its own paper, at its end, and reads only the title, so the tasks are run here in
  the order of the batch.
\<close>

fun gather_batch ::
  "(nat \<Rightarrow> pdf_io) \<Rightarrow> nat \<Rightarrow> ref list \<Rightarrow> store \<Rightarrow> (exn + ref option) list \<times> store" where
  "gather_batch svc k [] h = ([], h)"
| "gather_batch svc k (paper # batch) h =
     (case process_paper_pdf (svc k) paper h of
        (result, h1) \<Rightarrow>
          (case gather_batch svc (Suc k) batch h1 of
             (results, h2) \<Rightarrow> (result # results, h2)))"

text \<open>The loop over \<open>batch_results\<close>: only a result that is a paper is appended.\<close>

fun collect_successful :: "(exn + ref option) list \<Rightarrow> ref list" where
  "collect_successful [] = []"
| "collect_successful (Inl e # results) = collect_successful results"
| "collect_successful (Inr (Some paper) # results) = paper # collect_successful results"
| "collect_successful (Inr None # results) = collect_successful results"

text \<open>
  The loop \<open>for i in range(0, len(papers), batch_size)\<close> from position \<open>i\<close> on, for a
  positive step; \<open>papers[i:i + batch_size]\<close> is the batch.
\<close>

function batch_loop ::
  "(nat \<Rightarrow> pdf_io) \<Rightarrow> nat \<Rightarrow> nat \<Rightarrow> ref list \<Rightarrow> store \<Rightarrow> ref list \<times> store" where
  "batch_loop svc step i papers h =
     (if step = 0 \<or> length papers \<le> i then ([], h)
      else (case gather_batch svc i (take step (drop i papers)) h of
              (batch_results, h1) \<Rightarrow>
                (case batch_loop svc step (i + step) papers h1 of
                   (processed, h2) \<Rightarrow> (collect_successful batch_results @ processed, h2))))"
  by pat_completeness auto
termination
  by (relation "measure (\<lambda>(svc, step, i, papers, h). length papers - i)") auto

declare batch_loop.simps [simp del]

text \<open>
  \<open>process_papers_batch_parallel\<close>. A step of 0 makes \<open>range\<close> raise a \<open>ValueError\<close>;
  with a negative step the range is empty and no batch is processed.
\<close>

definition process_papers_batch_parallel ::
  "(nat \<Rightarrow> pdf_io) \<Rightarrow> ref list \<Rightarrow> int \<Rightarrow> store \<Rightarrow> (exn + ref list) \<times> store" where
  "process_papers_batch_parallel svc papers batch_size h =
     (if papers = [] then (Inr papers, h)
      else if batch_size = 0 then
        (Inl (Exn ''ValueError'' ''range() arg 3 must not be zero''), h)
      else if batch_size < 0 then (Inr [], h)
      else (case batch_loop svc (nat batch_size) 0 papers h of
              (all_processed_papers, h') \<Rightarrow> (Inr all_processed_papers, h')))"

text \<open>
  When a task hands its paper back: the title can be logged and either a stored copy
  exists or content is collected and its upload yields a reference.
\<close>

definition task_succeeds :: "pdf_io \<Rightarrow> paper \<Rightarrow> bool" where
  "task_succeeds io p =
     (p ''title'' \<noteq> Some VNone \<and>
      (case get_pdf_url io of
         Inl e \<Rightarrow> False
       | Inr existing_url \<Rightarrow>
           present existing_url \<or>
           (case collect_pdf io of
              Inl e \<Rightarrow> False
            | Inr pdf_content \<Rightarrow>
                present pdf_content \<and>
                (case upload_pdf io of Inl e \<Rightarrow> False | Inr b2_url \<Rightarrow> present b2_url))))"

text \<open>The papers whose own task succeeds, in input order; positions count from \<open>k\<close>.\<close>

fun survivors :: "(nat \<Rightarrow> pdf_io) \<Rightarrow> store \<Rightarrow> nat \<Rightarrow> ref list \<Rightarrow> ref list" where
  "survivors svc h k [] = []"
| "survivors svc h k (paper # papers) =
     (if task_succeeds (svc k) (h paper) then paper # survivors svc h (Suc k) papers
      else survivors svc h (Suc k) papers)"

text \<open>Two stores give every paper the same title.\<close>

definition same_titles :: "store \<Rightarrow> store \<Rightarrow> bool" where
  "same_titles h h0 = (\<forall>r. h r ''title'' = h0 r ''title'')"


text \<open>
  Collaborators for the examples: the first task finds a stored copy, the second finds
  none and the collector raises, every later task collects content and uploads it.
\<close>

definition example_pdf_services :: "nat \<Rightarrow> pdf_io" where
  "example_pdf_services k =
     (if k = 0 then
        \<lparr>get_pdf_url = Inr (Some ''b2://papers/0.pdf''), collect_pdf = Inr None,
         upload_pdf = Inr None\<rparr>
      else if k = 1 then
        \<lparr>get_pdf_url = Inr None, collect_pdf = Inl (Exn ''ClientError'' ''connection refused''),
         upload_pdf = Inr None\<rparr>
      else
        \<lparr>get_pdf_url = Inr None, collect_pdf = Inr (Some ''%PDF-1.7''),
         upload_pdf = Inr (Some ''b2://papers/new.pdf'')\<rparr>)"


section \<open>The search run: search\_orchestrator.py, search\_papers\<close>

text \<open>\<open>sep.join(parts)\<close>\<close>

fun py_join :: "string \<Rightarrow> string list \<Rightarrow> string" where
  "py_join sep [] = []"
| "py_join sep [x] = x"
| "py_join sep (x # y # ys) = x @ sep @ py_join sep (y # ys)"

text \<open>
  The collaborators of the orchestrator that live in modules of their own
  (deduplication, query refinement, metadata enrichment) are parameters. The
  deduplication service has a state of its own; \<open>add_papers\<close> may
  raise. The refinement service may be absent, not ready, or raise. The enrichment
  service returns a list of papers and may change the store or raise. The enhanced
  target \<open>int(target_size * pdf_compensation_factor)\<close> is computed in floating point
  (it is \<open>2 * target_size\<close> as long as that is exact, and an \<open>OverflowError\<close> for an
  integer beyond the floats), so it is a parameter too.
\<close>

record 'd PaperDeduplicationService =
  reset :: "'d \<Rightarrow> 'd"
  add_papers :: "ref list \<Rightarrow> store \<Rightarrow> 'd \<Rightarrow> exn + (nat \<times> 'd)"
  get_papers :: "'d \<Rightarrow> ref list"
  get_paper_count :: "'d \<Rightarrow> nat"

record AIQueryRefinementService =
  is_ready :: bool
  ai_generate :: "string list \<Rightarrow> string \<Rightarrow> ref list \<Rightarrow> exn + string list"

record 'd MultiSourceSearchOrchestrator =
  config :: SearchConfig
  clients :: providers
  active_sources :: "string list"
  deduplication_service :: "'d PaperDeduplicationService"
  ai_service :: "AIQueryRefinementService option"
  enrich_papers :: "ref list \<Rightarrow> store \<Rightarrow> exn + (ref list \<times> store)"
  enhanced_target :: "int \<Rightarrow> exn + int"

text \<open>\<open>_generate_refined_queries\<close>, with at most 10 of the papers found as a sample.\<close>

definition generate_refined_queries ::
  "AIQueryRefinementService option \<Rightarrow> string list \<Rightarrow> string \<Rightarrow> ref list \<Rightarrow> string list" where
  "generate_refined_queries ai original_terms domain found_papers =
     (case ai of
        None \<Rightarrow> []
      | Some service \<Rightarrow>
          if \<not> is_ready service then []
          else if found_papers = [] then []
          else (case ai_generate service original_terms domain (take 10 found_papers) of
                  Inl e \<Rightarrow> []
                | Inr refined_queries \<Rightarrow> refined_queries))"

text \<open>
  The inner loop of a round over the queries. The state is the deduplication state, the
  store and the number of fan-outs done so far.
\<close>

fun query_loop ::
  "'d MultiSourceSearchOrchestrator \<Rightarrow> string \<Rightarrow> string list \<Rightarrow> 'd \<times> store \<times> nat
     \<Rightarrow> exn + ('d \<times> store \<times> nat)" where
  "query_loop orch domain [] st = Inr st"
| "query_loop orch domain (query # rest) (d, h, tick) =
     (case search_all_sources (config orch) (clients orch) (active_sources orch)
             tick query domain h of
        (round_papers, h1) \<Rightarrow>
          (case add_papers (deduplication_service orch) round_papers h1 d of
             Inl e \<Rightarrow> Inl e
           | Inr (added_count, d1) \<Rightarrow> query_loop orch domain rest (d1, h1, Suc tick)))"

text \<open>The loop over the rounds that are left, with the queries of the current round.\<close>

fun round_loop ::
  "'d MultiSourceSearchOrchestrator \<Rightarrow> string list \<Rightarrow> string \<Rightarrow> int \<Rightarrow> nat list
     \<Rightarrow> string list \<Rightarrow> 'd \<times> store \<times> nat \<Rightarrow> exn + ('d \<times> store \<times> nat)" where
  "round_loop orch query_terms domain enhanced_target_size [] search_queries st = Inr st"
| "round_loop orch query_terms domain enhanced_target_size (round_num # rest) search_queries st =
     (case query_loop orch domain search_queries st of
        Inl e \<Rightarrow> Inl e
      | Inr (d, h, tick) \<Rightarrow>
          if enhanced_target_size \<le> int (get_paper_count (deduplication_service orch) d)
          then Inr (d, h, tick)
          else if int round_num < max_search_rounds (config orch) - 1 then
            (let refined_queries =
                   generate_refined_queries (ai_service orch) query_terms domain
                     (get_papers (deduplication_service orch) d)
             in if refined_queries \<noteq> []
                then round_loop orch query_terms domain enhanced_target_size rest
                       refined_queries (d, h, tick)
                else Inr (d, h, tick))
          else round_loop orch query_terms domain enhanced_target_size rest
                 search_queries (d, h, tick))"

text \<open>
  \<open>search_papers\<close> up to the enforcement of the content requirement: the rounds, the cut
  to the enhanced target, enrichment and ranking. It yields the ranked candidates or
  raises.
\<close>

definition ranked_candidates ::
  "'d MultiSourceSearchOrchestrator \<Rightarrow> string list \<Rightarrow> string \<Rightarrow> int \<Rightarrow> 'd \<Rightarrow> store
     \<Rightarrow> exn + (ref list \<times> store)" where
  "ranked_candidates orch query_terms domain target_size d h =
     (let d0 = reset (deduplication_service orch) d in
      case enhanced_target orch target_size of
        Inl e \<Rightarrow> Inl e
      | Inr enhanced_target_size \<Rightarrow>
          (case round_loop orch query_terms domain enhanced_target_size
                  [0 ..< nat (max_search_rounds (config orch))]
                  [py_join '' '' query_terms] (d0, h, 0) of
             Inl e \<Rightarrow> Inl e
           | Inr (d1, h1, tick) \<Rightarrow>
               (let all_collected_papers =
                      py_take enhanced_target_size (get_papers (deduplication_service orch) d1)
                in case enrich_papers orch all_collected_papers h1 of
                     Inl e \<Rightarrow> Inl e
                   | Inr (final_papers, h2) \<Rightarrow>
                       Inr (rank_papers h2 final_papers query_terms, h2))))"

text \<open>
  The \<open>try\<close> block of \<open>search_papers\<close> around the enforcement stage \<open>enforce\<close>, which is
  \<open>pdf_processor.process_papers_batch_parallel(final_papers, batch_size=8)\<close>: its result
  is cut to the target size, and an exception of the stage gives the empty list.
\<close>

definition enforce_content ::
  "(ref list \<Rightarrow> store \<Rightarrow> (exn + ref list) \<times> store) \<Rightarrow> int \<Rightarrow> ref list \<Rightarrow> store
     \<Rightarrow> ref list \<times> store" where
  "enforce_content enforce target_size final_papers h =
     (case enforce final_papers h of
        (Inl e, h') \<Rightarrow> ([], h')
      | (Inr processed, h') \<Rightarrow>
          (let final_count = int (length processed)
           in if final_count > target_size then (py_take target_size processed, h')
              else (processed, h')))"

text \<open>\<open>search_papers\<close> with the enforcement stage as a parameter.\<close>

definition search_papers_with ::
  "(ref list \<Rightarrow> store \<Rightarrow> (exn + ref list) \<times> store) \<Rightarrow> 'd MultiSourceSearchOrchestrator
     \<Rightarrow> string list \<Rightarrow> string \<Rightarrow> int \<Rightarrow> 'd \<Rightarrow> store \<Rightarrow> exn + (ref list \<times> store)" where
  "search_papers_with enforce orch query_terms domain target_size d h =
     (case ranked_candidates orch query_terms domain target_size d h of
        Inl e \<Rightarrow> Inl e
      | Inr (final_papers, h2) \<Rightarrow> Inr (enforce_content enforce target_size final_papers h2))"

text \<open>\<open>search_papers\<close> with the PDF processor of pdf\_processor.py as the stage.\<close>

definition search_papers ::
  "(nat \<Rightarrow> pdf_io) \<Rightarrow> 'd MultiSourceSearchOrchestrator
     \<Rightarrow> string list \<Rightarrow> string \<Rightarrow> int \<Rightarrow> 'd \<Rightarrow> store \<Rightarrow> exn + (ref list \<times> store)" where
  "search_papers svc orch query_terms domain target_size d h =
     search_papers_with (\<lambda>papers h. process_papers_batch_parallel svc papers 8 h)
       orch query_terms domain target_size d h"

text \<open>
  An orchestrator for the examples: the three example providers, a deduplication
  service that keeps the references it has not seen, no refinement service, an
  enrichment that changes nothing.
\<close>

definition example_deduplication :: "ref list PaperDeduplicationService" where
  "example_deduplication =
     \<lparr>reset = (\<lambda>d. []),
      add_papers = (\<lambda>papers h d.
         Inr (length (filter (\<lambda>p. p \<notin> set d) (remdups papers)),
              d @ filter (\<lambda>p. p \<notin> set d) (remdups papers))),
      get_papers = (\<lambda>d. d),
      get_paper_count = length\<rparr>"

definition example_orchestrator :: "ref list MultiSourceSearchOrchestrator" where
  "example_orchestrator =
     \<lparr>config = example_config,
      clients = example_providers,
      active_sources = [''arXiv'', ''PubMed'', ''CORE''],
      deduplication_service = example_deduplication,
      ai_service = None,
      enrich_papers = (\<lambda>papers h. Inr (papers, h)),
      enhanced_target = (\<lambda>target_size. Inr (2 * target_size))\<rparr>"

text \<open>An enforcement stage that raises.\<close>

definition failing_stage :: "ref list \<Rightarrow> store \<Rightarrow> (exn + ref list) \<times> store" where
  "failing_stage papers h = (Inl (Exn ''RuntimeError'' ''storage backend unavailable''), h)"

section \<open>Messaging: handlers.py, consumer.py, connection.py\<close>

text \<open>The value \<open>json.loads\<close> yields for a message body.\<close>

datatype json =
    JNull
  | JBool bool
  | JNum int
  | JStr string
  | JList "json list"
  | JObj "(string \<times> json) list"

text \<open>Python truthiness of such a value (\<open>if not message_data\<close>).\<close>

fun truthy :: "json \<Rightarrow> bool" where
  "truthy JNull = False"
| "truthy (JBool b) = b"
| "truthy (JNum n) = (n \<noteq> 0)"
| "truthy (JStr s) = (s \<noteq> [])"
| "truthy (JList xs) = (xs \<noteq> [])"
| "truthy (JObj kvs) = (kvs \<noteq> [])"

text \<open>
  An incoming delivery: its routing key and what \<open>_parse_message\<close> makes of its body,
  \<open>None\<close> when the body is not UTF-8 or not JSON. The lifecycle operations
  \<open>ack()\<close> and \<open>reject(requeue=...)\<close> are recorded as events.
\<close>

record delivery =
  routing_key :: "string option"
  body :: "json option"

datatype event =
    OrchestratorCalled json
  | OrchestratorReturned json
  | PublishCalled json
  | PublishReturned bool
  | Ack
  | Reject bool

subsection \<open>MessageHandlerFactory\<close>

record 'h MessageHandlerFactory =
  handlers :: "string \<rightharpoonup> 'h"
  default_handler :: "'h option"

definition new_factory :: "'h MessageHandlerFactory" where
  "new_factory = \<lparr>handlers = Map.empty, default_handler = None\<rparr>"

definition register_handler ::
  "string \<Rightarrow> 'h \<Rightarrow> 'h MessageHandlerFactory \<Rightarrow> 'h MessageHandlerFactory" where
  "register_handler message_type handler f = f\<lparr>handlers := (handlers f)(message_type \<mapsto> handler)\<rparr>"

definition set_default_handler :: "'h \<Rightarrow> 'h MessageHandlerFactory \<Rightarrow> 'h MessageHandlerFactory" where
  "set_default_handler handler f = f\<lparr>default_handler := Some handler\<rparr>"

text \<open>\<open>self.handlers.get(message_type, self.default_handler)\<close>\<close>

definition get_handler :: "'h MessageHandlerFactory \<Rightarrow> string \<Rightarrow> 'h option" where
  "get_handler f message_type =
     (case handlers f message_type of Some h \<Rightarrow> Some h | None \<Rightarrow> default_handler f)"

subsection \<open>ScholarAIConsumer\<close>

text \<open>
  \<open>_setup_handlers\<close>: one handler object, registered for \<open>"scholarai"\<close> and installed
  as the default.
\<close>

definition setup_handlers :: "'h \<Rightarrow> 'h MessageHandlerFactory" where
  "setup_handlers websearch_handler =
     set_default_handler websearch_handler
       (register_handler ''scholarai'' websearch_handler new_factory)"

text \<open>
  \<open>_extract_message_type\<close>: the first dot-delimited segment of a non-empty routing
  key, \<open>"websearch"\<close> otherwise.
\<close>

definition extract_message_type :: "delivery \<Rightarrow> string" where
  "extract_message_type message =
     (case routing_key message of
        None \<Rightarrow> ''websearch''
      | Some rk \<Rightarrow> if rk = [] then ''websearch'' else takeWhile (\<lambda>c. c \<noteq> CHR ''.'') rk)"

text \<open>
  \<open>_process_message\<close>. The handler's \<open>handle_message\<close> is a parameter: it yields the
  events it performed and either its return value or the exception it raised. A handler
  object is truthy, so \<open>if not handler\<close> is the test for \<open>None\<close>.
\<close>

definition process_message ::
  "'h MessageHandlerFactory \<Rightarrow> ('h \<Rightarrow> delivery \<Rightarrow> event list \<times> (exn + bool)) \<Rightarrow> delivery
     \<Rightarrow> event list" where
  "process_message factory handle message =
     (let message_type = extract_message_type message in
      case get_handler factory message_type of
        None \<Rightarrow> [Reject False]
      | Some handler \<Rightarrow>
          (case handle handler message of
             (evs, Inl e) \<Rightarrow> evs @ [Reject True]
           | (evs, Inr success) \<Rightarrow> evs))"

subsection \<open>RabbitMQConnection\<close>

text \<open>
  The connection manager as far as publishing goes: the connection flag, whether a channel
  is open, and what serialising and publishing the message on the exchange does (\<open>None\<close>
  when it goes through, the exception otherwise).
\<close>

record RabbitMQConnection =
  is_connected :: bool
  channel :: bool
  exchange_publish :: "string \<Rightarrow> json \<Rightarrow> exn option"

definition publish_message :: "RabbitMQConnection \<Rightarrow> string \<Rightarrow> json \<Rightarrow> bool" where
  "publish_message conn rk message_data =
     (if \<not> is_connected conn \<or> \<not> channel conn then False
      else (case exchange_publish conn rk message_data of
              None \<Rightarrow> True
            | Some e \<Rightarrow> False))"

definition publish_websearch_result :: "RabbitMQConnection \<Rightarrow> json \<Rightarrow> bool" where
  "publish_websearch_result conn result =
     publish_message conn ''scholarai.websearch.completed'' result"

subsection \<open>WebSearchMessageHandler\<close>

text \<open>
  The handler object: \<open>websearch_agent\<close> and \<open>connection_manager\<close> are \<open>None\<close> until
  \<open>initialize\<close> sets them. The agent's \<open>process_request\<close> runs the search orchestrator;
  it returns a result or raises.
\<close>

record WebSearchMessageHandler =
  websearch_agent :: "(json \<Rightarrow> exn + json) option"
  connection_manager :: "RabbitMQConnection option"

definition new_handler :: WebSearchMessageHandler where
  "new_handler = \<lparr>websearch_agent = None, connection_manager = None\<rparr>"

definition initialize ::
  "(json \<Rightarrow> exn + json) \<Rightarrow> RabbitMQConnection option \<Rightarrow> WebSearchMessageHandler
     \<Rightarrow> WebSearchMessageHandler" where
  "initialize agent cm h = h\<lparr>connection_manager := cm, websearch_agent := Some agent\<rparr>"

text \<open>The name Python prints for the type of a value in its error messages.\<close>

fun type_name :: "json \<Rightarrow> string" where
  "type_name JNull = ''NoneType''"
| "type_name (JBool b) = ''bool''"
| "type_name (JNum n) = ''int''"
| "type_name (JStr s) = ''str''"
| "type_name (JList xs) = ''list''"
| "type_name (JObj kvs) = ''dict''"

definition attribute_error :: "string \<Rightarrow> string \<Rightarrow> exn" where
  "attribute_error tname attr =
     Exn ''AttributeError'' (quoted tname @ '' object has no attribute '' @ quoted attr)"

text \<open>
  \<open>field in message_data\<close>: key membership on a dict, element membership on a list,
  substring on a string, a \<open>TypeError\<close> on anything else.
\<close>

fun field_in :: "string \<Rightarrow> json \<Rightarrow> exn + bool" where
  "field_in field (JObj kvs) = Inr (field \<in> fst ` set kvs)"
| "field_in field (JList xs) = Inr (JStr field \<in> set xs)"
| "field_in field (JStr s) = Inr (py_in field s)"
| "field_in field v =
     Inl (Exn ''TypeError'' (''argument of type '' @ quoted (type_name v) @ '' is not iterable''))"

text \<open>\<open>obj.get(key, default)\<close>: only a dict has the method.\<close>

fun get_or :: "json \<Rightarrow> string \<Rightarrow> json \<Rightarrow> exn + json" where
  "get_or (JObj kvs) key dflt =
     Inr (case map_of kvs key of Some v \<Rightarrow> v | None \<Rightarrow> dflt)"
| "get_or v key dflt =
     Inl (attribute_error (type_name v) ''get'')"

text \<open>The loop of \<open>_validate_websearch_message\<close> over the required fields.\<close>

fun required_present :: "string list \<Rightarrow> json \<Rightarrow> exn + bool" where
  "required_present [] message_data = Inr True"
| "required_present (field # rest) message_data =
     (case field_in field message_data of
        Inl e \<Rightarrow> Inl e
      | Inr False \<Rightarrow> Inr False
      | Inr True \<Rightarrow> required_present rest message_data)"

definition validate_websearch_message :: "json \<Rightarrow> exn + bool" where
  "validate_websearch_message message_data =
     (case required_present [''projectId'', ''queryTerms''] message_data of
        Inl e \<Rightarrow> Inl e
      | Inr False \<Rightarrow> Inr False
      | Inr True \<Rightarrow>
          (case get_or message_data ''queryTerms'' (JList []) of
             Inl e \<Rightarrow> Inl e
           | Inr query_terms \<Rightarrow>
               (case query_terms of
                  JList ts \<Rightarrow> Inr (ts \<noteq> [])
                | _ \<Rightarrow> Inr False)))"

text \<open>
  The body of the \<open>try\<close> in \<open>handle_message\<close>: the events performed so far and either the
  value returned or the exception raised. The two log lines that read
  \<open>correlationId\<close> with \<open>.get\<close> are kept, since they raise on a value that is no dict.
\<close>

definition handle_try :: "WebSearchMessageHandler \<Rightarrow> delivery \<Rightarrow> event list \<times> (exn + bool)" where
  "handle_try h message =
     (case body message of
        None \<Rightarrow> ([], Inr False)
      | Some message_data \<Rightarrow>
          if \<not> truthy message_data then ([], Inr False)
          else (case validate_websearch_message message_data of
            Inl e \<Rightarrow> ([], Inl e)
          | Inr False \<Rightarrow> ([Reject False], Inr False)
          | Inr True \<Rightarrow>
              (case get_or message_data ''correlationId'' (JStr ''unknown'') of
                 Inl e \<Rightarrow> ([], Inl e)
               | Inr _ \<Rightarrow>
              (case websearch_agent h of
                 None \<Rightarrow> ([], Inl (attribute_error ''NoneType'' ''process_request''))
               | Some agent \<Rightarrow>
                   (case agent message_data of
                      Inl e \<Rightarrow> ([OrchestratorCalled message_data], Inl e)
                    | Inr result \<Rightarrow>
                        (let ran = [OrchestratorCalled message_data, OrchestratorReturned result] in
                         case connection_manager h of
                           None \<Rightarrow> (ran @ [Ack], Inr True)
                         | Some cm \<Rightarrow>
                             (let success = publish_websearch_result cm result;
                                  published = ran @ [PublishCalled result, PublishReturned success]
                              in case get_or result ''correlationId'' (JStr ''unknown'') of
                                   Inl e \<Rightarrow> (published, Inl e)
                                 | Inr _ \<Rightarrow> (published @ [Ack], Inr True))))))))"

text \<open>
  \<open>handle_message\<close>: an exception of the body is answered by a reject, requeued unless
  its text says \<open>object has no attribute\<close> or \<open>AttributeError\<close>.
\<close>

definition handle_message :: "WebSearchMessageHandler \<Rightarrow> delivery \<Rightarrow> event list \<times> (exn + bool)" where
  "handle_message h message =
     (case handle_try h message of
        (evs, Inr r) \<Rightarrow> (evs, Inr r)
      | (evs, Inl e) \<Rightarrow>
          (let should_requeue =
                 \<not> (py_in ''object has no attribute'' (exn_msg e) \<or> py_in ''AttributeError'' (exn_msg e))
           in (evs @ [Reject should_requeue], Inr False)))"

text \<open>A handler initialised as the consumer does it, and a well-formed request.\<close>

definition example_connection :: RabbitMQConnection where
  "example_connection = \<lparr>is_connected = True, channel = True, exchange_publish = (\<lambda>rk d. None)\<rparr>"

definition example_handler :: WebSearchMessageHandler where
  "example_handler =
     initialize (\<lambda>md. Inr (JObj [(''correlationId'', JStr ''c1''), (''papers'', JList [])]))
       (Some example_connection) new_handler"

text \<open>The same agent in a handler that was initialised without a connection manager.\<close>

definition example_handler_unconnected :: WebSearchMessageHandler where
  "example_handler_unconnected =
     initialize (\<lambda>md. Inr (JObj [(''correlationId'', JStr ''c1''), (''papers'', JList [])]))
       None new_handler"

definition example_delivery :: delivery where
  "example_delivery =
     \<lparr>routing_key = Some ''scholarai.websearch'',
      body = Some (JObj [(''projectId'', JStr ''p1''), (''queryTerms'', JList [JStr ''graph'']),
                         (''correlationId'', JStr ''c1'')])\<rparr>"

section \<open>Handler lookup under the consumer's setup\<close>

lemma get_handler_setup: "get_handler (setup_handlers h) message_type = Some h"
  by (simp add: get_handler_def setup_handlers_def set_default_handler_def
      register_handler_def new_factory_def)

text \<open>
  Claim C10. With the handlers as \<open>_setup_handlers\<close> installs them, \<open>get_handler\<close>
  returns the websearch handler for every message type, the reject branch for a missing
  handler is never taken, and every delivery is handed to the websearch handler: what
  \<open>_process_message\<close> does is what that handler does, followed by a reject with requeue
  only if the handler raised.
\<close>

theorem C10_every_delivery_dispatched:
  "get_handler (setup_handlers h) message_type = Some h \<and>
   process_message (setup_handlers h) handle message =
     (case handle h message of
        (evs, Inl e) \<Rightarrow> evs @ [Reject True]
      | (evs, Inr success) \<Rightarrow> evs)"
  by (simp add: process_message_def get_handler_setup)

section \<open>The websearch handler\<close>

text \<open>
  A body that is a non-empty JSON object without \<open>projectId\<close>, or whose \<open>queryTerms\<close>
  is missing, no list or the empty list, is rejected without requeue and the agent is
  not called.
\<close>

lemma handle_message_invalid_object:
  assumes "body m = Some (JObj kvs)" "kvs \<noteq> []"
    and "map_of kvs ''projectId'' = None
         \<or> (\<forall>ts. map_of kvs ''queryTerms'' \<noteq> Some (JList ts))
         \<or> map_of kvs ''queryTerms'' = Some (JList [])"
  shows "handle_message h m = ([Reject False], Inr False)"
  using assms
  by (auto simp add: handle_message_def handle_try_def validate_websearch_message_def
      map_of_eq_None_iff domIff dom_map_of_conv_image_fst
      split: option.splits json.splits bool.splits sum.splits)

text \<open>A body that is a JSON number takes the exception path and is requeued.\<close>

lemma handle_message_number:
  "handle_message h \<lparr>routing_key = rk, body = Some (JNum 5)\<rparr> = ([Reject True], Inr False)"
  by (simp add: handle_message_def handle_try_def validate_websearch_message_def quoted_def)

text \<open>
  Claim C7. A delivery whose body lacks the request identifier, or whose query terms are
  not a non-empty list, should be rejected without requeue, the orchestrator not being
  called. The code does so for a non-empty object (\<open>handle_message_invalid_object\<close>),
  but the body \<open>{}\<close> lacks both fields and leaves \<open>handle_message\<close> through the early
  \<open>return False\<close> of the parse check: no reject, no acknowledgement, no call of the
  orchestrator.
\<close>

theorem C7_empty_object_not_rejected:
  "handle_message h \<lparr>routing_key = Some ''scholarai.websearch'', body = Some (JObj [])\<rparr>
     = ([], Inr False)"
  by (simp add: handle_message_def handle_try_def)

text \<open>
  Claim C8, as stated, has every acknowledgement preceded by the publishing of the
  result. The publish step stands under \<open>if self.connection_manager:\<close> and the
  acknowledgement after it, outside the test: a handler without a connection manager
  runs the orchestrator and acknowledges, and nothing is published.
\<close>

theorem C8_counterexample:
  "fst (handle_message example_handler_unconnected example_delivery) =
     [OrchestratorCalled
        (JObj [(''projectId'', JStr ''p1''), (''queryTerms'', JList [JStr ''graph'']),
               (''correlationId'', JStr ''c1'')]),
      OrchestratorReturned (JObj [(''correlationId'', JStr ''c1''), (''papers'', JList [])]),
      Ack]"
  by (simp add: handle_message_def handle_try_def validate_websearch_message_def
      example_handler_unconnected_def example_delivery_def initialize_def new_handler_def)

text \<open>
  Claim C8, amended. A delivery is acknowledged only at the end of one of two runs. With
  a connection manager set: the orchestrator was called and returned a result, the
  result was handed to the publisher and the publisher returned, then the
  acknowledgement. With no connection manager: the orchestrator was called and returned
  a result, then the acknowledgement, the publish step being skipped. In both the
  acknowledgement is the last event and never precedes a step that is taken.
\<close>

theorem C8_ack_last_after_run_and_optional_publish:
  assumes "handle_message h m = (evs, r)"
    and "Ack \<in> set evs"
  shows "\<exists>md agent res. body m = Some md \<and> websearch_agent h = Some agent \<and>
           agent md = Inr res \<and>
           evs = (case connection_manager h of
                    None \<Rightarrow> [OrchestratorCalled md, OrchestratorReturned res, Ack]
                  | Some cm \<Rightarrow>
                      [OrchestratorCalled md, OrchestratorReturned res, PublishCalled res,
                       PublishReturned (publish_websearch_result cm res), Ack])"
  using assms
  by (auto simp add: handle_message_def handle_try_def Let_def
      split: option.splits sum.splits bool.splits if_splits)

theorem C8_witness:
  "connection_manager example_handler = Some example_connection \<and>
   Ack \<in> set (fst (handle_message example_handler example_delivery)) \<and>
   (\<exists>md agent res. body example_delivery = Some md \<and>
      websearch_agent example_handler = Some agent \<and> agent md = Inr res \<and>
      fst (handle_message example_handler example_delivery) =
        [OrchestratorCalled md, OrchestratorReturned res, PublishCalled res,
         PublishReturned (publish_websearch_result example_connection res), Ack])"
proof -
  have cm: "connection_manager example_handler = Some example_connection"
    by (simp add: example_handler_def initialize_def new_handler_def)
  have run: "handle_message example_handler example_delivery =
      (fst (handle_message example_handler example_delivery),
       snd (handle_message example_handler example_delivery))"
    by simp
  have ack: "Ack \<in> set (fst (handle_message example_handler example_delivery))"
    by (simp add: handle_message_def handle_try_def validate_websearch_message_def
        example_handler_def example_delivery_def initialize_def new_handler_def)
  from C8_ack_last_after_run_and_optional_publish [OF run ack] cm ack show ?thesis
    by simp
qed

section \<open>Ranking\<close>

lemma sorted_reverse_mset: "mset (sorted_reverse key xs) = mset xs"
  by (simp add: sorted_reverse_def)

lemma sorted_reverse_descending:
  "sorted_wrt (\<lambda>a b. key b \<le> key a) (sorted_reverse key xs)"
proof -
  have "sorted (map key (sort_key key (rev xs)))"
    by (rule sorted_sort_key)
  then have "sorted_wrt (\<lambda>a b. key a \<le> key b) (sort_key key (rev xs))"
    by (simp add: sorted_wrt_map)
  then show ?thesis
    by (simp add: sorted_reverse_def sorted_wrt_rev)
qed

lemma sorted_reverse_stable:
  "filter (\<lambda>x. key x = k) (sorted_reverse key xs) = filter (\<lambda>x. key x = k) xs"
proof -
  have "filter (\<lambda>x. key x = k) (sort_key key (rev xs)) = filter (\<lambda>x. key x = k) (rev xs)"
    by (rule sort_key_stable)
  then show ?thesis
    by (simp add: sorted_reverse_def rev_filter [symmetric])
qed

lemma score_unfold:
  "score (map lower query_terms) p =
     (\<Sum>term\<leftarrow>query_terms.
        py_count (lower (get_or_empty p ''title'' @ '' '' @ get_or_empty p ''abstract''))
                 (lower term))"
  by (simp add: score_def score_text_def comp_def)

text \<open>
  Claim C5, as stated, takes the occurrences in the concatenation of title and abstract.
  The code puts a space between the two, so a term that only appears across the joint
  is not counted: under the stated score the two papers of \<open>example_store\<close> tie on the
  term \<open>Network\<close> and would keep their order, but the code ranks the second first.
\<close>

theorem C5_counterexample:
  "spec_score [''Network''] (example_store 0) = spec_score [''Network''] (example_store 1) \<and>
   rank_papers example_store [0, 1] [''Network''] = [1, 0]"
  by code_simp

text \<open>
  Claim C5, amended. The score of a paper is the sum, over the query terms, of the
  number of non-overlapping occurrences of the lower-cased term in the lower-cased text
  made of the title, one space and the abstract (a missing or \<open>None\<close> field counting
  as empty). \<open>_rank_papers\<close> returns the same papers, ordered by descending score, and
  papers of equal score keep their input order.
\<close>

theorem C5_rank_descending_stable:
  fixes h :: store and query_terms :: "string list"
  defines "sc \<equiv> (\<lambda>p. \<Sum>term\<leftarrow>query_terms.
              py_count (lower (get_or_empty (h p) ''title'' @ '' '' @ get_or_empty (h p) ''abstract''))
                       (lower term))"
  shows "mset (rank_papers h papers query_terms) = mset papers \<and>
         sorted_wrt (\<lambda>a b. sc b \<le> sc a) (rank_papers h papers query_terms) \<and>
         (\<forall>k. filter (\<lambda>p. sc p = k) (rank_papers h papers query_terms)
                = filter (\<lambda>p. sc p = k) papers)"
proof -
  have key: "(\<lambda>p. score (map lower query_terms) (h p)) = sc"
    unfolding sc_def by (simp add: score_unfold)
  show ?thesis
  proof (cases "papers = []")
    case True
    then show ?thesis by (simp add: rank_papers_def)
  next
    case False
    then have "rank_papers h papers query_terms = sorted_reverse sc papers"
      by (simp add: rank_papers_def key)
    then show ?thesis
      by (simp add: sorted_reverse_mset sorted_reverse_descending sorted_reverse_stable)
  qed
qed

section \<open>Provider dispatch\<close>

lemma retry_loop_exhaust:
  assumes "int m = max_rate_limit_retries cfg" "a \<le> m"
    and "\<forall>k. a \<le> k \<and> k \<le> m \<longrightarrow> rate_limited call k"
  shows "retry_loop cfg call [a ..< Suc m] =
          (concat (map (\<lambda>k. [ApiCall k, Sleep (rate_limit_backoff_seconds cfg)]) [a ..< m])
             @ [ApiCall m], ReturnEmpty)"
  using assms
proof (induction "m - a" arbitrary: a)
  case 0
  then have "a = m" by simp
  moreover from 0 have "rate_limited call m" by simp
  ultimately show ?case using 0(2)
    by (auto simp add: rate_limited_def split: outcome.splits)
next
  case (Suc d)
  then have lt: "a < m" by simp
  then have up: "[a ..< Suc m] = a # [Suc a ..< Suc m]" "[a ..< m] = a # [Suc a ..< m]"
    by (simp_all add: upt_conv_Cons)
  from Suc have rl: "rate_limited call a" by simp
  have ih: "retry_loop cfg call [Suc a ..< Suc m] =
          (concat (map (\<lambda>k. [ApiCall k, Sleep (rate_limit_backoff_seconds cfg)]) [Suc a ..< m])
             @ [ApiCall m], ReturnEmpty)"
    using Suc.hyps(1)[of "Suc a"] Suc.hyps(2) Suc.prems lt by simp
  from lt Suc.prems(1) have "int a < max_rate_limit_retries cfg" by simp
  with rl ih show ?case
    unfolding up by (auto simp add: rate_limited_def simp del: upt_Suc split: outcome.splits)
qed

lemma retry_loop_other_error:
  assumes "int m = max_rate_limit_retries cfg" "a \<le> k" "k \<le> m"
    and "\<forall>j. a \<le> j \<and> j < k \<longrightarrow> rate_limited call j"
    and "call k = Raised e" "\<not> is_rate_limit e"
  shows "retry_loop cfg call [a ..< Suc m] =
          (concat (map (\<lambda>j. [ApiCall j, Sleep (rate_limit_backoff_seconds cfg)]) [a ..< k])
             @ [ApiCall k], Reraise e)"
  using assms
proof (induction "k - a" arbitrary: a)
  case 0
  then have ak: "a = k" by simp
  then have "[a ..< Suc m] = k # [Suc k ..< Suc m]" using 0 by (simp add: upt_conv_Cons)
  then show ?case using 0 ak by simp
next
  case (Suc d)
  then have lt: "a < k" by simp
  then have up: "[a ..< Suc m] = a # [Suc a ..< Suc m]" "[a ..< k] = a # [Suc a ..< k]"
    using Suc.prems by (simp_all add: upt_conv_Cons)
  from Suc lt have rl: "rate_limited call a" by simp
  have ih: "retry_loop cfg call [Suc a ..< Suc m] =
          (concat (map (\<lambda>j. [ApiCall j, Sleep (rate_limit_backoff_seconds cfg)]) [Suc a ..< k])
             @ [ApiCall k], Reraise e)"
    using Suc.hyps(1)[of "Suc a"] Suc.hyps(2) Suc.prems lt by simp
  from lt Suc.prems have "int a < max_rate_limit_retries cfg" by simp
  with rl ih show ?case
    unfolding up by (auto simp add: rate_limited_def simp del: upt_Suc split: outcome.splits)
qed

lemma retry_loop_break:
  "retry_loop cfg call atts = (evs, Break ps) \<Longrightarrow> \<exists>k \<in> set atts. call k = Returned ps"
  by (induction atts arbitrary: evs) (auto split: outcome.splits if_splits prod.splits)

lemma safe_source_search_returns:
  "\<exists>ps. snd (safe_source_search cfg pv tick src q d) = Inr ps"
  by (auto simp add: safe_source_search_def split: prod.splits sum.splits)

lemma combine_results_papers:
  "fst (combine_results rs h) =
     concat (map (\<lambda>(s, r). case r of Inl e \<Rightarrow> [] | Inr ps \<Rightarrow> ps) rs)"
  by (induction rs h rule: combine_results.induct) (auto split: sum.splits prod.splits)


lemma attempts_upto: "int m = max_rate_limit_retries cfg \<Longrightarrow> attempts cfg = [0 ..< Suc m]"
proof -
  assume "int m = max_rate_limit_retries cfg"
  then have "nat (max_rate_limit_retries cfg + 1) = Suc m" by linarith
  then show ?thesis by (simp only: attempts_def)
qed

text \<open>
  Claim C6. With a client and filters at hand and \<open>max_rate_limit_retries = m\<close>: if
  every attempt up to the \<open>m\<close>-th ends in a rate-limit error, the provider is called
  \<open>m + 1\<close> times (\<open>m\<close> retries), with one sleep of \<open>rate_limit_backoff_seconds\<close> between
  two attempts, and the search returns the empty list. If, after \<open>k \<le> m\<close> rate-limited
  attempts, the call raises another exception, that call is the last one and the search
  returns the empty list.
\<close>

theorem C6_rate_limit_retry_policy:
  assumes "api_clients pv source_name = Some client"
    and "build_filters pv source_name domain query = None"
    and "int m = max_rate_limit_retries cfg"
  shows "((\<forall>k\<le>m. rate_limited (client tick query) k) \<longrightarrow>
            safe_source_search cfg pv tick source_name query domain =
              (concat (map (\<lambda>k. [ApiCall k, Sleep (rate_limit_backoff_seconds cfg)]) [0 ..< m])
                 @ [ApiCall m], Inr [])) \<and>
         (k \<le> m \<and> (\<forall>j<k. rate_limited (client tick query) j) \<and>
            client tick query k = Raised e \<and> \<not> is_rate_limit e \<longrightarrow>
            safe_source_search cfg pv tick source_name query domain =
              (concat (map (\<lambda>j. [ApiCall j, Sleep (rate_limit_backoff_seconds cfg)]) [0 ..< k])
                 @ [ApiCall k], Inr []))"
proof (intro conjI impI)
  assume "\<forall>k\<le>m. rate_limited (client tick query) k"
  then have "retry_loop cfg (client tick query) [0 ..< Suc m] =
          (concat (map (\<lambda>k. [ApiCall k, Sleep (rate_limit_backoff_seconds cfg)]) [0 ..< m])
             @ [ApiCall m], ReturnEmpty)"
    using assms(3) by (intro retry_loop_exhaust) simp_all
  then show "safe_source_search cfg pv tick source_name query domain =
              (concat (map (\<lambda>k. [ApiCall k, Sleep (rate_limit_backoff_seconds cfg)]) [0 ..< m])
                 @ [ApiCall m], Inr [])"
    using assms
    by (simp add: safe_source_search_def safe_source_search_try_def attempts_upto del: upt_Suc)
next
  assume a: "k \<le> m \<and> (\<forall>j<k. rate_limited (client tick query) j) \<and>
            client tick query k = Raised e \<and> \<not> is_rate_limit e"
  then have "retry_loop cfg (client tick query) [0 ..< Suc m] =
          (concat (map (\<lambda>j. [ApiCall j, Sleep (rate_limit_backoff_seconds cfg)]) [0 ..< k])
             @ [ApiCall k], Reraise e)"
    using assms(3) by (intro retry_loop_other_error) simp_all
  then show "safe_source_search cfg pv tick source_name query domain =
              (concat (map (\<lambda>j. [ApiCall j, Sleep (rate_limit_backoff_seconds cfg)]) [0 ..< k])
                 @ [ApiCall k], Inr [])"
    using assms
    by (simp add: safe_source_search_def safe_source_search_try_def attempts_upto del: upt_Suc)
qed

theorem C6_witness:
  "rate_limited (\<lambda>attempt. Raised (Exn ''HTTPError'' ''429 Too Many Requests'')) 0 \<and>
   rate_limited (\<lambda>attempt. Raised (Exn ''HTTPError'' ''429 Too Many Requests'')) 1 \<and>
   safe_source_search example_config example_providers 0 ''arXiv'' ''q'' ''d''
     = ([ApiCall 0, Sleep 2, ApiCall 1], Inr []) \<and>
   \<not> is_rate_limit (Exn ''ConnectionError'' ''connection reset by peer'') \<and>
   safe_source_search example_config example_providers 0 ''CORE'' ''q'' ''d''
     = ([ApiCall 0, Sleep 2, ApiCall 1], Inr [])"
proof -
  let ?arxiv = "\<lambda>(tick::nat) (query::string) (attempt::nat).
                  Raised (Exn ''HTTPError'' ''429 Too Many Requests'')"
  let ?core = "\<lambda>(tick::nat) (query::string) (attempt::nat).
                  if attempt = 0 then Raised (Exn ''HTTPError'' ''Rate limit exceeded'')
                  else Raised (Exn ''ConnectionError'' ''connection reset by peer'')"
  have ca: "api_clients example_providers ''arXiv'' = Some ?arxiv"
    and cc: "api_clients example_providers ''CORE'' = Some ?core"
    by (simp_all add: example_providers_def)
  have bf: "build_filters example_providers src ''d'' ''q'' = None" for src
    by (simp add: example_providers_def)
  have m: "int 1 = max_rate_limit_retries example_config"
    and b: "rate_limit_backoff_seconds example_config = 2"
    by (simp_all add: example_config_def)
  have r1: "is_rate_limit (Exn ''HTTPError'' ''429 Too Many Requests'')"
    and r2: "is_rate_limit (Exn ''HTTPError'' ''Rate limit exceeded'')"
    and r3: "\<not> is_rate_limit (Exn ''ConnectionError'' ''connection reset by peer'')"
    by code_simp+
  have all_limited: "\<forall>k\<le>1. rate_limited (?arxiv 0 ''q'') k"
    by (simp add: rate_limited_def r1)
  have then_other: "1 \<le> (1::nat) \<and> (\<forall>j<1. rate_limited (?core 0 ''q'') j) \<and>
      ?core 0 ''q'' 1 = Raised (Exn ''ConnectionError'' ''connection reset by peer'') \<and>
      \<not> is_rate_limit (Exn ''ConnectionError'' ''connection reset by peer'')"
    by (simp add: rate_limited_def r2 r3)
  from C6_rate_limit_retry_policy [where tick = 0 and k = 0, OF ca bf m] all_limited
  have "safe_source_search example_config example_providers 0 ''arXiv'' ''q'' ''d''
     = ([ApiCall 0, Sleep 2, ApiCall 1], Inr [])"
    by (simp add: b)
  moreover
  from C6_rate_limit_retry_policy [where tick = 0 and k = 1
      and e = "Exn ''ConnectionError'' ''connection reset by peer''", OF cc bf m] then_other
  have "safe_source_search example_config example_providers 0 ''CORE'' ''q'' ''d''
     = ([ApiCall 0, Sleep 2, ApiCall 1], Inr [])"
    by (simp add: b)
  ultimately show ?thesis
    using all_limited r3 by simp
qed

text \<open>
  Claim C4. Whatever the client does, \<open>_safe_source_search\<close> returns a list and does not
  raise, and the list is empty unless an attempt returned it. \<open>_search_all_sources\<close>
  has the result of every active source at hand before it combines them, and what it
  returns is the concatenation, in the order of the sources, of what each source's
  search returned: the failure of one source takes nothing away from the others.
\<close>

theorem C4_provider_isolation:
  "(\<exists>papers. snd (safe_source_search cfg pv tick source_name query domain) = Inr papers \<and>
      (papers \<noteq> [] \<longrightarrow>
         (\<exists>client k. api_clients pv source_name = Some client \<and>
                     client tick query k = Returned papers))) \<and>
   fst (search_all_sources cfg pv sources tick query domain h) =
     concat (map (\<lambda>s. case snd (safe_source_search cfg pv tick s query domain) of
                         Inl e \<Rightarrow> [] | Inr papers \<Rightarrow> papers) sources)"
proof
  show "\<exists>papers. snd (safe_source_search cfg pv tick source_name query domain) = Inr papers \<and>
      (papers \<noteq> [] \<longrightarrow>
         (\<exists>client k. api_clients pv source_name = Some client \<and>
                     client tick query k = Returned papers))"
    by (auto simp add: safe_source_search_def safe_source_search_try_def
        split: prod.splits sum.splits option.splits loop_exit.splits dest: retry_loop_break)
  show "fst (search_all_sources cfg pv sources tick query domain h) =
     concat (map (\<lambda>s. case snd (safe_source_search cfg pv tick s query domain) of
                         Inl e \<Rightarrow> [] | Inr papers \<Rightarrow> papers) sources)"
    by (simp add: search_all_sources_def combine_results_papers comp_def)
qed

theorem C4_witness:
  "snd (safe_source_search example_config example_providers 0 ''PubMed'' ''q'' ''d'') = Inr [0, 1] \<and>
   (\<exists>client k. api_clients example_providers ''PubMed'' = Some client \<and>
               client 0 ''q'' k = Returned [0, 1]) \<and>
   snd (safe_source_search example_config example_providers 0 ''arXiv'' ''q'' ''d'') = Inr [] \<and>
   fst (search_all_sources example_config example_providers [''arXiv'', ''PubMed'', ''CORE'']
          0 ''q'' ''d'' example_store) = [0, 1]"
proof -
  have pubmed: "snd (safe_source_search example_config example_providers 0 ''PubMed'' ''q'' ''d'')
      = Inr [0, 1]"
    by code_simp
  have arxiv: "snd (safe_source_search example_config example_providers 0 ''arXiv'' ''q'' ''d'')
      = Inr []"
    by code_simp
  have core: "snd (safe_source_search example_config example_providers 0 ''CORE'' ''q'' ''d'')
      = Inr []"
    by code_simp
  from C4_provider_isolation [of example_config example_providers 0 "''PubMed''" "''q''" "''d''"
      "[''arXiv'', ''PubMed'', ''CORE'']" example_store]
  show ?thesis
    by (simp add: pubmed arxiv core)
qed

section \<open>Content acquisition\<close>

lemma attach_title: "attach url paper h r ''title'' = h r ''title''"
  by (simp add: attach_def)

lemma task_succeeds_title:
  "p ''title'' = q ''title'' \<Longrightarrow> task_succeeds io p = task_succeeds io q"
  by (simp add: task_succeeds_def)

lemma title_for_log_ok: "(\<exists>s. title_for_log p = Inr s) \<longleftrightarrow> p ''title'' \<noteq> Some VNone"
  by (auto simp add: title_for_log_def split: option.splits val.splits)

lemma process_paper_pdf_success:
  assumes "task_succeeds io (h paper)"
  shows "\<exists>url. url \<noteq> [] \<and> process_paper_pdf io paper h = (Inr (Some paper), attach url paper h)"
proof -
  from assms obtain s where t: "title_for_log (h paper) = Inr s"
    using title_for_log_ok [of "h paper"] by (auto simp add: task_succeeds_def)
  show ?thesis
  proof (cases "get_pdf_url io")
    case (Inl e)
    with assms show ?thesis by (simp add: task_succeeds_def)
  next
    case (Inr existing_url)
    show ?thesis
    proof (cases "present existing_url")
      case True
      then obtain u where "existing_url = Some u" "u \<noteq> []" by (cases existing_url) auto
      with Inr t show ?thesis
        by (auto simp add: process_paper_pdf_def process_paper_pdf_try_def)
    next
      case False
      with assms Inr obtain c b where c: "collect_pdf io = Inr c" "present c"
        and b: "upload_pdf io = Inr b" "present b"
        by (auto simp add: task_succeeds_def split: sum.splits)
      from b obtain u where "b = Some u" "u \<noteq> []" by (cases b) auto
      with Inr False t c b show ?thesis
        by (auto simp add: process_paper_pdf_def process_paper_pdf_try_def)
    qed
  qed
qed

lemma process_paper_pdf_failure:
  assumes "\<not> task_succeeds io (h paper)"
  shows "snd (process_paper_pdf io paper h) = h \<and>
         collect_successful (fst (process_paper_pdf io paper h) # rs) = collect_successful rs"
proof (cases "title_for_log (h paper)")
  case (Inl e)
  then show ?thesis
    by (auto simp add: process_paper_pdf_def process_paper_pdf_try_def split: sum.splits)
next
  case (Inr s)
  then have "h paper ''title'' \<noteq> Some VNone"
    using title_for_log_ok [of "h paper"] by auto
  with assms Inr show ?thesis
    by (auto simp add: process_paper_pdf_def process_paper_pdf_try_def task_succeeds_def
        split: sum.splits)
qed

lemma same_titles_refl: "same_titles h h"
  by (simp add: same_titles_def)

lemma same_titles_attach: "same_titles h h0 \<Longrightarrow> same_titles (attach url paper h) h0"
  by (simp add: same_titles_def attach_title)

lemma gather_batch_survivors:
  assumes "same_titles h h0"
  shows "collect_successful (fst (gather_batch svc k batch h)) = survivors svc h0 k batch \<and>
         same_titles (snd (gather_batch svc k batch h)) h0"
  using assms
proof (induction batch arbitrary: k h)
  case Nil
  then show ?case by simp
next
  case (Cons paper batch)
  have eq: "task_succeeds (svc k) (h paper) = task_succeeds (svc k) (h0 paper)"
    using Cons.prems by (intro task_succeeds_title) (simp add: same_titles_def)
  show ?case
  proof (cases "task_succeeds (svc k) (h paper)")
    case True
    then obtain url where u: "process_paper_pdf (svc k) paper h = (Inr (Some paper), attach url paper h)"
      using process_paper_pdf_success by blast
    from Cons.IH [OF same_titles_attach [OF Cons.prems, of url paper], of "Suc k"] u True eq show ?thesis
      by (auto split: prod.splits)
  next
    case False
    from process_paper_pdf_failure [where io = "svc k" and h = h and paper = paper, OF False]
    have s: "snd (process_paper_pdf (svc k) paper h) = h"
      and c: "\<And>rs. collect_successful (fst (process_paper_pdf (svc k) paper h) # rs) = collect_successful rs"
      by simp_all
    from Cons.IH [OF Cons.prems, of "Suc k"] s c False eq show ?thesis
      by (auto split: prod.splits)
  qed
qed

lemma survivors_append:
  "survivors svc h k (xs @ ys) = survivors svc h k xs @ survivors svc h (k + length xs) ys"
  by (induction xs arbitrary: k) simp_all

lemma batch_loop_survivors:
  assumes "0 < step" "same_titles h h0"
  shows "fst (batch_loop svc step i papers h) = survivors svc h0 i (drop i papers) \<and>
         same_titles (snd (batch_loop svc step i papers h)) h0"
  using assms
proof (induction svc step i papers h rule: batch_loop.induct)
  case (1 svc step i papers h)
  show ?case
  proof (cases "length papers \<le> i")
    case True
    then show ?thesis using "1.prems" by (subst (1 2) batch_loop.simps) simp
  next
    case False
    obtain rs h1 where g: "gather_batch svc i (take step (drop i papers)) h = (rs, h1)"
      by (cases "gather_batch svc i (take step (drop i papers)) h")
    from gather_batch_survivors [OF "1.prems"(2), of svc i "take step (drop i papers)"] g
    have c: "collect_successful rs = survivors svc h0 i (take step (drop i papers))"
      and t: "same_titles h1 h0"
      by simp_all
    obtain ps h2 where b: "batch_loop svc step (i + step) papers h1 = (ps, h2)"
      by (cases "batch_loop svc step (i + step) papers h1")
    have ne: "\<not> (step = 0 \<or> length papers \<le> i)" using False "1.prems" by simp
    from "1.IH" [OF ne g [symmetric] "1.prems"(1) t] b
    have ih: "ps = survivors svc h0 (i + step) (drop (i + step) papers)"
      and t2: "same_titles h2 h0"
      by simp_all
    have "drop (i + step) papers = drop step (drop i papers)"
      by (simp add: add.commute)
    then have split: "drop i papers = take step (drop i papers) @ drop (i + step) papers"
      by (simp only: append_take_drop_id)
    have "survivors svc h0 i (drop i papers)
        = survivors svc h0 i (take step (drop i papers))
          @ survivors svc h0 (i + length (take step (drop i papers))) (drop (i + step) papers)"
      by (subst split) (rule survivors_append)
    moreover have "survivors svc h0 (i + length (take step (drop i papers))) (drop (i + step) papers)
        = survivors svc h0 (i + step) (drop (i + step) papers)"
    proof (cases "step \<le> length papers - i")
      case True
      then show ?thesis by (simp add: min_def)
    next
      case False
      then have "drop (i + step) papers = []" by simp
      then show ?thesis by simp
    qed
    ultimately have "survivors svc h0 i (drop i papers) = collect_successful rs @ ps"
      using c ih by simp
    moreover have "batch_loop svc step i papers h = (collect_successful rs @ ps, h2)"
      using ne g b by (subst batch_loop.simps) simp
    ultimately show ?thesis using t2 by simp
  qed
qed

lemma survivors_subseq: "subseq (survivors svc h k papers) papers"
  by (induction papers arbitrary: k) auto


lemma process_papers_batch_parallel_result:
  "fst (process_papers_batch_parallel svc papers batch_size h) =
     (if papers = [] then Inr []
      else if batch_size = 0 then Inl (Exn ''ValueError'' ''range() arg 3 must not be zero'')
      else if batch_size < 0 then Inr []
      else Inr (survivors svc h 0 papers))"
  using batch_loop_survivors [OF _ same_titles_refl, of "nat batch_size" svc 0 papers h]
  by (auto simp add: process_papers_batch_parallel_def split: prod.splits)

text \<open>
  Claim C9. What \<open>process_papers_batch_parallel\<close> returns is settled for every batch
  size. For a positive size it returns the papers whose own task succeeded, in input
  order: the batches follow each other in input order, and a task that finds no content,
  fails to store it or raises takes only its own paper out, the other papers of its
  batch and the later batches being processed all the same. An empty input is returned
  as it is, a negative size processes no batch and a size of 0 raises before any paper
  is touched. Whenever a list is returned, it is a subsequence of the input.
\<close>

theorem C9_output_is_surviving_subsequence:
  "fst (process_papers_batch_parallel svc papers batch_size h) =
     (if papers = [] then Inr []
      else if batch_size = 0 then Inl (Exn ''ValueError'' ''range() arg 3 must not be zero'')
      else if batch_size < 0 then Inr []
      else Inr (survivors svc h 0 papers)) \<and>
   (\<forall>out. fst (process_papers_batch_parallel svc papers batch_size h) = Inr out
       \<longrightarrow> subseq out papers)"
  by (auto simp add: process_papers_batch_parallel_result survivors_subseq)

theorem C9_witness:
  "fst (process_papers_batch_parallel example_pdf_services [0, 1, 2] 2 example_store)
     = Inr [0, 2] \<and>
   subseq [0, 2] [0, 1, 2::nat]"
proof -
  have ev: "survivors example_pdf_services example_store 0 [0, 1, 2] = [0, 2]"
    by code_simp
  from C9_output_is_surviving_subsequence
         [of example_pdf_services "[0, 1, 2]" 2 example_store] ev
  show ?thesis
    by simp
qed

section \<open>The search run\<close>


lemma py_take_length: "0 \<le> n \<Longrightarrow> int (length (py_take n xs)) \<le> n"
  by (simp add: py_take_def)








lemma collect_successful_append:
  "collect_successful (xs @ ys) = collect_successful xs @ collect_successful ys"
  by (induction xs rule: collect_successful.induct) simp_all






text \<open>
  Claim C2, as stated, bounds the length of the result by every target size. A
  negative target size cannot bound a length: with target size \<open>-1\<close> the example run
  returns the empty list, whose length 0 exceeds \<open>-1\<close>.
\<close>

theorem C2_counterexample:
  "map_sum id fst (search_papers example_pdf_services example_orchestrator
      [''Network''] ''cs'' (- 1) [] example_store) = Inr [] \<and>
   \<not> int (length ([] :: ref list)) \<le> - 1"
proof
  show "map_sum id fst (search_papers example_pdf_services example_orchestrator
      [''Network''] ''cs'' (- 1) [] example_store) = Inr []"
    by code_simp
  show "\<not> int (length ([] :: ref list)) \<le> - 1"
    by simp
qed

text \<open>
  Claim C2, amended. For every target size \<open>N \<ge> 0\<close>, every behaviour of the providers
  and collaborators and every enforcement stage, a list returned by \<open>search_papers\<close>
  has at most \<open>N\<close> papers.
\<close>

theorem C2_bounded_output:
  assumes "0 \<le> target_size"
    and "search_papers_with enforce orch query_terms domain target_size d h = Inr (out, h')"
  shows "int (length out) \<le> target_size"
proof -
  from assms(2) obtain ranked h2 where
    r: "enforce_content enforce target_size ranked h2 = (out, h')"
    by (auto simp add: search_papers_with_def split: sum.splits)
  then show ?thesis
    using assms(1) py_take_length [OF assms(1), of "projr (fst (enforce ranked h2))"]
    by (auto simp add: enforce_content_def Let_def split: prod.splits sum.splits if_splits)
qed

theorem C2_witness:
  "(0::int) \<le> 1 \<and>
   (\<exists>h'. search_papers example_pdf_services example_orchestrator [''Network''] ''cs'' 1 []
            example_store = Inr ([1], h')) \<and>
   int (length [1::ref]) \<le> 1"
proof -
  have "map_sum id fst (search_papers example_pdf_services example_orchestrator
          [''Network''] ''cs'' 1 [] example_store) = Inr [1]"
    by code_simp
  then obtain h' where run: "search_papers example_pdf_services example_orchestrator
      [''Network''] ''cs'' 1 [] example_store = Inr ([1], h')"
    by (cases "search_papers example_pdf_services example_orchestrator
          [''Network''] ''cs'' 1 [] example_store") auto
  have pos: "(0::int) \<le> 1"
    by simp
  from C2_bounded_output [OF pos run [unfolded search_papers_def]] run pos show ?thesis
    by blast
qed

text \<open>
  Claim C3. When the run has reached the enforcement of the content requirement and
  that stage raises, \<open>search_papers\<close> returns the empty list: none of the ranked
  candidates is returned. (With the PDF processor of pdf\_processor.py and its batch size
  of 8 the stage does not raise; the statement is about any stage put in its place.)
\<close>

theorem C3_stage_failure_gives_empty_result:
  assumes "ranked_candidates orch query_terms domain target_size d h = Inr (final_papers, h2)"
    and "enforce final_papers h2 = (Inl e, h3)"
  shows "search_papers_with enforce orch query_terms domain target_size d h = Inr ([], h3)"
  using assms by (simp add: search_papers_with_def enforce_content_def)

theorem C3_witness:
  "\<exists>h2. ranked_candidates example_orchestrator [''Network''] ''cs'' 1 [] example_store
           = Inr ([1, 0], h2) \<and>
         search_papers_with failing_stage example_orchestrator [''Network''] ''cs'' 1 []
           example_store = Inr ([], h2)"
proof -
  have "map_sum id fst (ranked_candidates example_orchestrator
          [''Network''] ''cs'' 1 [] example_store) = Inr [1, 0]"
    by code_simp
  then obtain h2 where cands: "ranked_candidates example_orchestrator
      [''Network''] ''cs'' 1 [] example_store = Inr ([1, 0], h2)"
    by (cases "ranked_candidates example_orchestrator
          [''Network''] ''cs'' 1 [] example_store") auto
  have fails: "failing_stage [1, 0] h2
      = (Inl (Exn ''RuntimeError'' ''storage backend unavailable''), h2)"
    by (simp add: failing_stage_def)
  from C3_stage_failure_gives_empty_result [where enforce = failing_stage, OF cands fails] cands
  show ?thesis
    by blast
qed

end
